theory Spec2Isabelle
  imports Complex_Main
begin

section \<open>Data model\<close>

text \<open>
  The enumerations of the Prisma schema, as the services and \<open>types/index.ts\<close> use them.
\<close>

datatype RoleType = CAJA | MESERO | COCINA

datatype OrderStatus = RECIBIDO | PREPARACION | LISTO | ENTREGADO | CANCELADO

datatype ChannelType = MESA | VENTANILLA | DOMICILIO

datatype PaymentMethod = EFECTIVO | TARJETA | TRANSFERENCIA | OTRO

datatype Permission =
    ORDER_CREATE | ORDER_ADD_ITEMS | ORDER_EDIT_ITEMS | ORDER_DELETE_ITEMS
  | ORDER_CANCEL | ORDER_REQUEST_BILL | ORDER_MARK_PAID
  | STATUS_RECIBIDO_TO_PREPARACION | STATUS_PREPARACION_TO_LISTO
  | STATUS_LISTO_TO_ENTREGADO | STATUS_TO_CANCELADO
  | CASH_OPEN_SESSION | CASH_CLOSE_SESSION | CASH_VIEW_REPORTS
  | VIEW_PRICES | VIEW_FINANCIAL_REPORTS

text \<open>
  The services raise \<open>new Error(message)\<close>. An error with a fixed message is \<open>Error\<close>
  with that message; a message that interpolates values is a constructor of its own
  carrying those values. \<open>RecordNotFound\<close> is what Prisma's \<open>update\<close> raises when no row
  has the id.
\<close>

datatype error =
    Error string
  | PaymentAmountExceedsOrderTotal rat rat rat
  | InvalidStatusTransition OrderStatus OrderStatus
  | RoleCannotChangeStatus RoleType OrderStatus OrderStatus
  | CannotStartPreparationStatus OrderStatus
  | CannotMarkReadyStatus OrderStatus
  | CannotDeliverStatus OrderStatus
  | OrderStatusChangedExpectedListo OrderStatus
  | RecordNotFound

text \<open>
  The rows of the tables. Row identifiers are opaque in the source (generated strings);
  here they are natural numbers handed out by a counter. Table and user identifiers are
  kept as strings, because the source tests them for truthiness. Timestamps are natural
  numbers. A JavaScript \<open>number\<close> holding money is an exact rational: the rounding of
  doubles is not modelled. A nullable column is an \<open>option\<close>.
\<close>

record Order =
  order_id :: nat
  status :: OrderStatus
  channel :: ChannelType
  tableId :: "string option"
  requestedBill :: bool
  paidAt :: "nat option"
  order_notes :: "string option"
  createdAt :: nat
  userId :: string

record OrderItem =
  item_id :: nat
  item_orderId :: nat
  productName :: string
  quantity :: int
  price :: rat
  item_notes :: "string option"

record Payment =
  payment_id :: nat
  payment_orderId :: nat
  payment_userId :: string
  cashSessionId :: nat
  amount :: rat
  payment_method :: PaymentMethod
  reference :: "string option"
  payment_notes :: "string option"
  payment_createdAt :: nat

record CashSession =
  session_id :: nat
  session_userId :: string
  openedAt :: nat
  closedAt :: "nat option"
  initialCash :: rat
  finalCash :: "rat option"
  session_notes :: "string option"

record CancelLog =
  cancel_orderId :: nat
  reason :: string
  cancel_userId :: string

text \<open>
  The database: one list of rows per table, in insertion order, and the counter for fresh
  identifiers. The audit table is left out: \<open>AuditService.createLog\<close> only inserts into
  it, swallows its own failure, and nothing reads it back.
\<close>

record Database =
  orders :: "Order list"
  orderItems :: "OrderItem list"
  payments :: "Payment list"
  cashSessions :: "CashSession list"
  cancelLogs :: "CancelLog list"
  nextId :: nat

section \<open>Permission matrix and transition table (\<open>types/index.ts\<close>, \<open>utils/order.utils.ts\<close>)\<close>

fun ROLE_PERMISSIONS :: "RoleType \<Rightarrow> Permission list" where
  "ROLE_PERMISSIONS CAJA =
     [ORDER_CREATE, ORDER_ADD_ITEMS, ORDER_EDIT_ITEMS, ORDER_DELETE_ITEMS, ORDER_CANCEL,
      ORDER_REQUEST_BILL, ORDER_MARK_PAID,
      STATUS_RECIBIDO_TO_PREPARACION, STATUS_PREPARACION_TO_LISTO,
      STATUS_LISTO_TO_ENTREGADO, STATUS_TO_CANCELADO,
      CASH_OPEN_SESSION, CASH_CLOSE_SESSION, CASH_VIEW_REPORTS,
      VIEW_PRICES, VIEW_FINANCIAL_REPORTS]"
| "ROLE_PERMISSIONS MESERO =
     [ORDER_CREATE, ORDER_ADD_ITEMS, ORDER_REQUEST_BILL, STATUS_LISTO_TO_ENTREGADO, VIEW_PRICES]"
| "ROLE_PERMISSIONS COCINA =
     [STATUS_RECIBIDO_TO_PREPARACION, STATUS_PREPARACION_TO_LISTO]"

definition hasPermission :: "RoleType \<Rightarrow> Permission \<Rightarrow> bool" where
  "hasPermission role permission = List.member (ROLE_PERMISSIONS role) permission"

fun VALID_STATUS_TRANSITIONS :: "OrderStatus \<Rightarrow> OrderStatus list" where
  "VALID_STATUS_TRANSITIONS RECIBIDO = [PREPARACION, CANCELADO]"
| "VALID_STATUS_TRANSITIONS PREPARACION = [LISTO, CANCELADO]"
| "VALID_STATUS_TRANSITIONS LISTO = [ENTREGADO, CANCELADO]"
| "VALID_STATUS_TRANSITIONS ENTREGADO = []"
| "VALID_STATUS_TRANSITIONS CANCELADO = []"

definition isValidStatusTransition :: "OrderStatus \<Rightarrow> OrderStatus \<Rightarrow> bool" where
  "isValidStatusTransition from to = List.member (VALID_STATUS_TRANSITIONS from) to"

definition canModifyOrder :: "nat option \<Rightarrow> bool" where
  "canModifyOrder paid = (paid = None)"

definition canCancelOrder :: "nat option \<Rightarrow> bool" where
  "canCancelOrder paid = (paid = None)"

text \<open>\<open>OrderService.canChangeStatus\<close>: the role's right to a specific edge.\<close>

fun canChangeStatus :: "RoleType \<Rightarrow> OrderStatus \<Rightarrow> OrderStatus \<Rightarrow> bool" where
  "canChangeStatus CAJA from to = isValidStatusTransition from to"
| "canChangeStatus MESERO from to = (from = LISTO \<and> to = ENTREGADO)"
| "canChangeStatus COCINA from to =
     ((from = RECIBIDO \<and> to = PREPARACION) \<or> (from = PREPARACION \<and> to = LISTO))"

section \<open>The persistence calls the services make\<close>

text \<open>\<open>prisma.order.findUnique({ where: { id } })\<close>.\<close>

definition order_findUnique :: "Database \<Rightarrow> nat \<Rightarrow> Order option" where
  "order_findUnique db orderId = find (\<lambda>r. order_id r = orderId) (orders db)"

text \<open>
  \<open>prisma.order.update({ where: { id }, data })\<close>: the write is keyed on the id alone and
  raises when no row has it.
\<close>

definition order_update :: "Database \<Rightarrow> nat \<Rightarrow> (Order \<Rightarrow> Order) \<Rightarrow> error + Database" where
  "order_update db orderId f =
     (case order_findUnique db orderId of
        None \<Rightarrow> Inl RecordNotFound
      | Some _ \<Rightarrow>
          Inr (db\<lparr>orders := map (\<lambda>r. if order_id r = orderId then f r else r) (orders db)\<rparr>))"

text \<open>
  \<open>tx.order.updateMany({ where: { id, status: expected }, data: { status } })\<close>: the
  conditional write of the kitchen and waiter services; it returns the number of rows
  it matched.
\<close>

definition order_updateMany_status ::
    "Database \<Rightarrow> nat \<Rightarrow> OrderStatus \<Rightarrow> OrderStatus \<Rightarrow> nat \<times> Database" where
  "order_updateMany_status db orderId expected new =
     (length (filter (\<lambda>r. order_id r = orderId \<and> status r = expected) (orders db)),
      db\<lparr>orders := map (\<lambda>r. if order_id r = orderId \<and> status r = expected
                               then r\<lparr>status := new\<rparr> else r) (orders db)\<rparr>)"

text \<open>The items of an order, as \<open>include: { items: true }\<close> joins them.\<close>

definition items_of :: "Database \<Rightarrow> nat \<Rightarrow> OrderItem list" where
  "items_of db orderId = filter (\<lambda>i. item_orderId i = orderId) (orderItems db)"

definition payments_of :: "Database \<Rightarrow> nat \<Rightarrow> Payment list" where
  "payments_of db orderId = filter (\<lambda>p. payment_orderId p = orderId) (payments db)"

text \<open>Fresh identifiers for the rows of \<open>createMany\<close> and of a nested \<open>create\<close>.\<close>

record CreateOrderItem =
  new_productName :: string
  new_quantity :: int
  new_price :: rat
  new_notes :: "string option"

fun make_items :: "nat \<Rightarrow> nat \<Rightarrow> CreateOrderItem list \<Rightarrow> OrderItem list" where
  "make_items orderId n [] = []"
| "make_items orderId n (x # xs) =
     \<lparr>item_id = n, item_orderId = orderId, productName = new_productName x,
      quantity = new_quantity x, price = new_price x, item_notes = new_notes x\<rparr>
       # make_items orderId (Suc n) xs"

definition orderItem_createMany :: "Database \<Rightarrow> nat \<Rightarrow> CreateOrderItem list \<Rightarrow> Database" where
  "orderItem_createMany db orderId xs =
     db\<lparr>orderItems := orderItems db @ make_items orderId (nextId db) xs,
        nextId := nextId db + length xs\<rparr>"

section \<open>Order service (\<open>services/order.service.ts\<close>)\<close>


record UpdateOrderItemData =
  upd_productName :: "string option"
  upd_quantity :: "int option"
  upd_price :: "rat option"
  upd_notes :: "string option"





definition addItems ::
    "Database \<Rightarrow> nat \<Rightarrow> CreateOrderItem list \<Rightarrow> RoleType \<Rightarrow> error + Database" where
  "addItems db orderId xs userRole =
     (if \<not> hasPermission userRole ORDER_ADD_ITEMS then Inl (Error ''No permission to add items'')
      else case order_findUnique db orderId of
        None \<Rightarrow> Inl (Error ''Order not found'')
      | Some ord \<Rightarrow>
          if \<not> canModifyOrder (paidAt ord) then Inl (Error ''Cannot modify paid order'')
          else if status ord = CANCELADO then Inl (Error ''Cannot add items to cancelled order'')
          else Inr (orderItem_createMany db orderId xs))"

text \<open>
  \<open>prisma.orderItem.update({ where: { id }, data })\<close>: a field given as \<open>undefined\<close> is
  left as it is.
\<close>

definition apply_patch :: "UpdateOrderItemData \<Rightarrow> OrderItem \<Rightarrow> OrderItem" where
  "apply_patch d i =
     i\<lparr>productName := (case upd_productName d of None \<Rightarrow> productName i | Some v \<Rightarrow> v),
       quantity := (case upd_quantity d of None \<Rightarrow> quantity i | Some v \<Rightarrow> v),
       price := (case upd_price d of None \<Rightarrow> price i | Some v \<Rightarrow> v),
       item_notes := (case upd_notes d of None \<Rightarrow> item_notes i | Some v \<Rightarrow> Some v)\<rparr>"

definition editItem ::
    "Database \<Rightarrow> nat \<Rightarrow> nat \<Rightarrow> UpdateOrderItemData \<Rightarrow> RoleType \<Rightarrow> error + Database" where
  "editItem db orderId itemId d userRole =
     (if \<not> hasPermission userRole ORDER_EDIT_ITEMS then Inl (Error ''No permission to edit items'')
      else case order_findUnique db orderId of
        None \<Rightarrow> Inl (Error ''Order not found'')
      | Some ord \<Rightarrow>
          if \<not> canModifyOrder (paidAt ord) then Inl (Error ''Cannot modify paid order'')
          else case find (\<lambda>i. item_id i = itemId \<and> item_orderId i = orderId) (orderItems db) of
            None \<Rightarrow> Inl (Error ''Item not found in this order'')
          | Some _ \<Rightarrow>
              Inr (db\<lparr>orderItems :=
                     map (\<lambda>i. if item_id i = itemId then apply_patch d i else i) (orderItems db)\<rparr>))"

definition deleteItem :: "Database \<Rightarrow> nat \<Rightarrow> nat \<Rightarrow> RoleType \<Rightarrow> error + Database" where
  "deleteItem db orderId itemId userRole =
     (if \<not> hasPermission userRole ORDER_DELETE_ITEMS
        then Inl (Error ''No permission to delete items'')
      else case order_findUnique db orderId of
        None \<Rightarrow> Inl (Error ''Order not found'')
      | Some ord \<Rightarrow>
          if \<not> canModifyOrder (paidAt ord) then Inl (Error ''Cannot modify paid order'')
          else case find (\<lambda>i. item_id i = itemId) (items_of db orderId) of
            None \<Rightarrow> Inl (Error ''Item not found in this order'')
          | Some _ \<Rightarrow>
              if length (items_of db orderId) = 1
                then Inl (Error ''Cannot delete the last item. Cancel the order instead.'')
              else Inr (db\<lparr>orderItems := filter (\<lambda>i. item_id i \<noteq> itemId) (orderItems db)\<rparr>))"

text \<open>
  \<open>changeStatus\<close> reads the order (\<open>await findUnique\<close>), runs its three checks on the row
  it read, and then writes (\<open>await update\<close>). Between the two awaits other requests run, so
  the part after the read takes the row as read and the database as it is at the write.
  A call that nothing interleaves with reads and writes the same database.
\<close>

definition changeStatus_checks :: "Order \<Rightarrow> OrderStatus \<Rightarrow> RoleType \<Rightarrow> error option" where
  "changeStatus_checks ord newStatus userRole =
     (if paidAt ord \<noteq> None \<and> newStatus \<noteq> ENTREGADO
        then Some (Error ''Cannot change status of paid order'')
      else if \<not> isValidStatusTransition (status ord) newStatus
        then Some (InvalidStatusTransition (status ord) newStatus)
      else if \<not> canChangeStatus userRole (status ord) newStatus
        then Some (RoleCannotChangeStatus userRole (status ord) newStatus)
      else None)"

definition changeStatus_after_read ::
    "Order option \<Rightarrow> Database \<Rightarrow> nat \<Rightarrow> OrderStatus \<Rightarrow> RoleType \<Rightarrow> error + Database" where
  "changeStatus_after_read rd db orderId newStatus userRole =
     (case rd of
        None \<Rightarrow> Inl (Error ''Order not found'')
      | Some ord \<Rightarrow>
          (case changeStatus_checks ord newStatus userRole of
             Some e \<Rightarrow> Inl e
           | None \<Rightarrow> order_update db orderId (\<lambda>r. r\<lparr>status := newStatus\<rparr>)))"

definition changeStatus :: "Database \<Rightarrow> nat \<Rightarrow> OrderStatus \<Rightarrow> RoleType \<Rightarrow> error + Database" where
  "changeStatus db orderId newStatus userRole =
     changeStatus_after_read (order_findUnique db orderId) db orderId newStatus userRole"

text \<open>
  Two \<open>changeStatus\<close> requests on one order whose reads both happen before either write:
  the first request's write runs on the database both have read, the second's on what
  the first left. The result is the outcome of each request and the final database.
\<close>

definition changeStatus_race ::
    "Database \<Rightarrow> nat \<Rightarrow> OrderStatus \<times> RoleType \<Rightarrow> OrderStatus \<times> RoleType
       \<Rightarrow> (error + Database) \<times> (error + Database) \<times> Database" where
  "changeStatus_race db orderId a b =
     (let rd1 = order_findUnique db orderId;
          rd2 = order_findUnique db orderId;
          r1 = changeStatus_after_read rd1 db orderId (fst a) (snd a);
          db1 = (case r1 of Inl _ \<Rightarrow> db | Inr d \<Rightarrow> d);
          r2 = changeStatus_after_read rd2 db1 orderId (fst b) (snd b);
          db2 = (case r2 of Inl _ \<Rightarrow> db1 | Inr d \<Rightarrow> d)
      in (r1, r2, db2))"

text \<open>\<open>String.prototype.trim\<close> on the code units this model has.\<close>

definition isWhiteSpace :: "char \<Rightarrow> bool" where
  "isWhiteSpace c = List.member [9, 10, 11, 12, 13, 32, 160 :: nat] (of_char c)"

definition trim :: "string \<Rightarrow> string" where
  "trim s = rev (dropWhile isWhiteSpace (rev (dropWhile isWhiteSpace s)))"

definition cancelOrder ::
    "Database \<Rightarrow> nat \<Rightarrow> string \<Rightarrow> string \<Rightarrow> RoleType \<Rightarrow> error + Database" where
  "cancelOrder db orderId user why userRole =
     (if \<not> hasPermission userRole ORDER_CANCEL then Inl (Error ''No permission to cancel orders'')
      else case order_findUnique db orderId of
        None \<Rightarrow> Inl (Error ''Order not found'')
      | Some ord \<Rightarrow>
          if \<not> canCancelOrder (paidAt ord) then Inl (Error ''Cannot cancel paid order'')
          else if status ord = CANCELADO then Inl (Error ''Order is already cancelled'')
          else if why = [] \<or> length (trim why) = 0
            then Inl (Error ''Cancellation reason is required'')
          else (case order_update db orderId (\<lambda>r. r\<lparr>status := CANCELADO\<rparr>) of
                  Inl e \<Rightarrow> Inl e
                | Inr db1 \<Rightarrow>
                    Inr (db1\<lparr>cancelLogs := cancelLogs db1 @
                           [\<lparr>cancel_orderId = orderId, reason = why, cancel_userId = user\<rparr>]\<rparr>)))"

definition requestBill :: "Database \<Rightarrow> nat \<Rightarrow> RoleType \<Rightarrow> error + Database" where
  "requestBill db orderId userRole =
     (if \<not> hasPermission userRole ORDER_REQUEST_BILL
        then Inl (Error ''No permission to request bill'')
      else case order_findUnique db orderId of
        None \<Rightarrow> Inl (Error ''Order not found'')
      | Some ord \<Rightarrow>
          if paidAt ord \<noteq> None then Inl (Error ''Order is already paid'')
          else order_update db orderId (\<lambda>r. r\<lparr>requestedBill := True\<rparr>))"




subsection \<open>Reads\<close>

text \<open>
  What a read sends back: the order row with its items. An item of a response has a
  price that may be \<open>null\<close>. The joined table, user, payments and cancel log of a
  response are left out.
\<close>

record OrderItemView =
  view_id :: nat
  view_orderId :: nat
  view_productName :: string
  view_quantity :: int
  view_price :: "rat option"
  view_notes :: "string option"

record OrderWithItems =
  row :: Order
  items :: "OrderItemView list"









section \<open>Cash service (\<open>services/cash.service.ts\<close>)\<close>





section \<open>Payment service (\<open>services/payment.service.ts\<close>)\<close>

record CreatePaymentData =
  pay_orderId :: nat
  pay_method :: PaymentMethod
  pay_amount :: rat
  pay_reference :: "string option"
  pay_notes :: "string option"










section \<open>Kitchen service (\<open>services/kitchen.service.ts\<close>)\<close>







text \<open>
  \<open>startPreparation\<close> and \<open>markReady\<close> read the order and then write with \<open>updateMany\<close>,
  whose \<open>where\<close> repeats the status they expect; a count of zero raises. As for
  \<open>changeStatus\<close>, the part after the read takes the row as read and the database as it
  is at the write.
\<close>

definition startPreparation_after_read ::
    "Order option \<Rightarrow> Database \<Rightarrow> nat \<Rightarrow> error + Database" where
  "startPreparation_after_read rd db orderId =
     (case rd of
        None \<Rightarrow> Inl (Error ''Order not found'')
      | Some ord \<Rightarrow>
          if status ord = CANCELADO
            then Inl (Error ''Cannot start preparation for cancelled order'')
          else if status ord = ENTREGADO
            then Inl (Error ''Cannot start preparation for delivered order'')
          else if paidAt ord \<noteq> None then Inl (Error ''Cannot start preparation for paid order'')
          else if status ord \<noteq> RECIBIDO then Inl (CannotStartPreparationStatus (status ord))
          else if \<not> isValidStatusTransition RECIBIDO PREPARACION
            then Inl (Error ''Invalid status transition from RECIBIDO to PREPARACION'')
          else (let (n, db1) = order_updateMany_status db orderId RECIBIDO PREPARACION
                in if n = 0 then Inl (Error ''Order status changed. Please refresh and try again.'')
                   else (case order_findUnique db1 orderId of
                           None \<Rightarrow> Inl (Error ''Failed to update order'')
                         | Some _ \<Rightarrow> Inr db1)))"




text \<open>
  A kitchen \<open>startPreparation\<close> whose read happened before a cashier's \<open>changeStatus\<close>
  wrote: the outcome of each request and the final database.
\<close>

definition startPreparation_race ::
    "Database \<Rightarrow> nat \<Rightarrow> OrderStatus \<times> RoleType
       \<Rightarrow> (error + Database) \<times> (error + Database) \<times> Database" where
  "startPreparation_race db orderId a =
     (let rd1 = order_findUnique db orderId;
          rd2 = order_findUnique db orderId;
          r1 = changeStatus_after_read rd1 db orderId (fst a) (snd a);
          db1 = (case r1 of Inl _ \<Rightarrow> db | Inr d \<Rightarrow> d);
          r2 = startPreparation_after_read rd2 db1 orderId;
          db2 = (case r2 of Inl _ \<Rightarrow> db1 | Inr d \<Rightarrow> d)
      in (r1, r2, db2))"

section \<open>Waiter service (\<open>services/waiter.service.ts\<close>)\<close>


definition waiter_addItems ::
    "Database \<Rightarrow> nat \<Rightarrow> CreateOrderItem list \<Rightarrow> RoleType \<Rightarrow> error + Database" where
  "waiter_addItems db orderId xs userRole =
     (if userRole \<noteq> MESERO then Inl (Error ''Only MESERO role can access waiter endpoints'')
      else case order_findUnique db orderId of
        None \<Rightarrow> Inl (Error ''Order not found'')
      | Some ord \<Rightarrow>
          if \<not> canModifyOrder (paidAt ord) then Inl (Error ''Cannot modify paid order'')
          else if status ord = CANCELADO then Inl (Error ''Cannot add items to cancelled order'')
          else Inr (orderItem_createMany db orderId xs))"





definition waiter_requestBill :: "Database \<Rightarrow> nat \<Rightarrow> RoleType \<Rightarrow> error + Database" where
  "waiter_requestBill db orderId userRole =
     (if userRole \<noteq> MESERO then Inl (Error ''Only MESERO role can access waiter endpoints'')
      else case order_findUnique db orderId of
        None \<Rightarrow> Inl (Error ''Order not found'')
      | Some ord \<Rightarrow>
          if paidAt ord \<noteq> None then Inl (Error ''Order is already paid'')
          else order_update db orderId (\<lambda>r. r\<lparr>requestedBill := True\<rparr>))"

section \<open>The operations that write\<close>



section \<open>The same database at other prices\<close>


section \<open>A concrete restaurant\<close>

text \<open>
  Order 1 is a table order of two tacos at 10.00 and one water at 5.00 (total 25.00), in
  a given status and paid or not; order 2 is a counter order of a single item. One cash
  session is open.
\<close>

definition example_order :: "OrderStatus \<Rightarrow> nat option \<Rightarrow> Order" where
  "example_order st pd =
     \<lparr>order_id = 1, status = st, channel = MESA, tableId = Some ''T1'', requestedBill = False,
      paidAt = pd, order_notes = None, createdAt = 100, userId = ''waiter-1''\<rparr>"

definition example_items :: "OrderItem list" where
  "example_items =
     [\<lparr>item_id = 11, item_orderId = 1, productName = ''Taco'', quantity = 2, price = 10,
       item_notes = None\<rparr>,
      \<lparr>item_id = 12, item_orderId = 1, productName = ''Agua'', quantity = 1, price = 5,
       item_notes = None\<rparr>,
      \<lparr>item_id = 21, item_orderId = 2, productName = ''Torta'', quantity = 1, price = 8,
       item_notes = None\<rparr>]"

definition example_db :: "OrderStatus \<Rightarrow> nat option \<Rightarrow> Database" where
  "example_db st pd =
     \<lparr>orders =
        [example_order st pd,
         \<lparr>order_id = 2, status = RECIBIDO, channel = VENTANILLA, tableId = None,
          requestedBill = False, paidAt = None, order_notes = None, createdAt = 120,
          userId = ''cashier-1''\<rparr>],
      orderItems = example_items,
      payments = [],
      cashSessions =
        [\<lparr>session_id = 3, session_userId = ''cashier-1'', openedAt = 50, closedAt = None,
          initialCash = 50, finalCash = None, session_notes = None\<rparr>],
      cancelLogs = [],
      nextId = 100\<rparr>"

definition example_payment :: "rat \<Rightarrow> CreatePaymentData" where
  "example_payment a =
     \<lparr>pay_orderId = 1, pay_method = EFECTIVO, pay_amount = a, pay_reference = None,
      pay_notes = None\<rparr>"

definition example_new_item :: CreateOrderItem where
  "example_new_item =
     \<lparr>new_productName = ''Flan'', new_quantity = 1, new_price = 4, new_notes = None\<rparr>"

definition example_patch :: UpdateOrderItemData where
  "example_patch =
     \<lparr>upd_productName = None, upd_quantity = Some 3, upd_price = None, upd_notes = None\<rparr>"

text \<open>
  The payment row that \<open>example_payment a\<close> stores when cashier-1 pays at time 200, and
  the database after it.
\<close>

definition example_payment_row :: "rat \<Rightarrow> Payment" where
  "example_payment_row a =
     \<lparr>payment_id = 100, payment_orderId = 1, payment_userId = ''cashier-1'', cashSessionId = 3,
      amount = a, payment_method = EFECTIVO, reference = None, payment_notes = None,
      payment_createdAt = 200\<rparr>"

definition example_db_after_payment :: "rat \<Rightarrow> nat option \<Rightarrow> Database" where
  "example_db_after_payment a pd =
     (example_db LISTO pd)\<lparr>payments := [example_payment_row a], nextId := 101\<rparr>"

section \<open>Evaluation on the concrete restaurant\<close>

lemmas example_defs =
  example_db_def example_order_def example_items_def example_payment_def
  example_payment_row_def example_db_after_payment_def

lemmas table_defs =
  order_findUnique_def order_update_def order_updateMany_status_def items_of_def payments_of_def

section \<open>Racing status changes\<close>

text \<open>
  The kitchen's path, for comparison: a \<open>startPreparation\<close> that read order 1 in
  \<open>RECIBIDO\<close> before a cashier cancelled it matches no row with its conditional write and
  raises; the cancellation stays.
\<close>

lemma startPreparation_race_detected:
  "startPreparation_race (example_db RECIBIDO None) 1 (CANCELADO, CAJA) =
     (Inr (example_db CANCELADO None),
      Inl (Error ''Order status changed. Please refresh and try again.''),
      example_db CANCELADO None)"
  by (simp add: startPreparation_race_def startPreparation_after_read_def
      changeStatus_after_read_def changeStatus_checks_def table_defs example_defs
      isValidStatusTransition_def Let_def)

text \<open>
  Claim C1: \<open>changeStatus\<close> writes the status with an update conditional on the status it
  read, and of two racing calls that read the same status and target different ones,
  exactly one succeeds and the other fails with a concurrency error.

  \<open>OrderService.changeStatus\<close> writes with \<open>update\<close> keyed on the id alone. Two cashier
  requests that both read order 1 in \<open>LISTO\<close>, one targeting \<open>ENTREGADO\<close> and one
  \<open>CANCELADO\<close>, both succeed, and the second write replaces the first.
\<close>

theorem changeStatus_race_both_succeed:
  "changeStatus_race (example_db LISTO None) 1 (ENTREGADO, CAJA) (CANCELADO, CAJA) =
     (Inr (example_db ENTREGADO None), Inr (example_db CANCELADO None),
      example_db CANCELADO None)"
  by (simp add: changeStatus_race_def changeStatus_after_read_def changeStatus_checks_def
      table_defs example_defs isValidStatusTransition_def)

section \<open>Cancelling\<close>

text \<open>
  The transition table has no edge out of \<open>ENTREGADO\<close>, and \<open>changeStatus\<close> refuses to
  cancel a delivered order.
\<close>

lemma changeStatus_delivered_to_cancelled:
  "changeStatus (example_db ENTREGADO None) 1 CANCELADO CAJA =
     Inl (InvalidStatusTransition ENTREGADO CANCELADO)"
  by (simp add: changeStatus_def changeStatus_after_read_def changeStatus_checks_def
      table_defs example_defs isValidStatusTransition_def)

text \<open>
  Claim C5: \<open>cancelOrder\<close> succeeds only on unpaid orders in \<open>RECIBIDO\<close>, \<open>PREPARACION\<close> or
  \<open>LISTO\<close>; on a delivered, cancelled or paid order it fails and the status is unchanged.

  \<open>OrderService.cancelOrder\<close> tests \<open>paidAt\<close> and \<open>CANCELADO\<close> but not \<open>ENTREGADO\<close>, and
  never consults the transition table: the delivered, unpaid order 1 is cancelled.
\<close>

theorem cancelOrder_delivered_succeeds:
  "cancelOrder (example_db ENTREGADO None) 1 ''cashier-1'' ''left without paying'' CAJA =
     Inr ((example_db CANCELADO None)
            \<lparr>cancelLogs := [\<lparr>cancel_orderId = 1, reason = ''left without paying'',
                              cancel_userId = ''cashier-1''\<rparr>]\<rparr>)"
  by (simp add: cancelOrder_def hasPermission_def table_defs example_defs canCancelOrder_def
      trim_def isWhiteSpace_def)

section \<open>Payments\<close>

subsection \<open>Facts about the tables\<close>

lemma find_map_same_key:
  assumes "\<And>x. P (g x) = P x"
  shows "find P (map g xs) = map_option g (find P xs)"
  by (induction xs) (simp_all add: assms)


lemma order_update_found:
  assumes "order_findUnique db i = Some ord"
  shows "order_update db i f =
           Inr (db\<lparr>orders := map (\<lambda>r. if order_id r = i then f r else r) (orders db)\<rparr>)"
  using assms by (simp add: order_update_def)

lemma order_findUnique_after_update:
  assumes "\<And>r. order_id (f r) = order_id r"
  shows "order_findUnique (db\<lparr>orders := map (\<lambda>r. if order_id r = i then f r else r) (orders db)\<rparr>) j
           = map_option (\<lambda>r. if order_id r = i then f r else r) (order_findUnique db j)"
  unfolding order_findUnique_def
  by (simp add: find_map_same_key assms)

lemma order_findUnique_id:
  "order_findUnique db i = Some ord \<Longrightarrow> order_id ord = i"
  by (auto simp: order_findUnique_def find_Some_iff)






subsection \<open>Paid within the tolerance, reported unpaid\<close>



subsection \<open>The overpayment check\<close>




section \<open>Status changes by role\<close>

text \<open>The pairs a role may perform, read off the two tables.\<close>

lemma authorized_edges:
  "(isValidStatusTransition f t \<and> canChangeStatus r f t) =
     ((r = CAJA \<and> List.member [(RECIBIDO, PREPARACION), (RECIBIDO, CANCELADO), (PREPARACION, LISTO),
                      (PREPARACION, CANCELADO), (LISTO, ENTREGADO), (LISTO, CANCELADO)] (f, t))
      \<or> (r = MESERO \<and> f = LISTO \<and> t = ENTREGADO)
      \<or> (r = COCINA \<and> ((f = RECIBIDO \<and> t = PREPARACION) \<or> (f = PREPARACION \<and> t = LISTO))))"
  by (cases r; cases f; cases t) (simp_all add: isValidStatusTransition_def)

lemma changeStatus_found:
  assumes "order_findUnique db i = Some ord"
  shows "changeStatus db i t r =
     (case changeStatus_checks ord t r of
        Some e \<Rightarrow> Inl e
      | None \<Rightarrow> Inr (db\<lparr>orders := map (\<lambda>x. if order_id x = i then x\<lparr>status := t\<rparr> else x) (orders db)\<rparr>))"
  using assms
  by (simp add: changeStatus_def changeStatus_after_read_def order_update_found
           split: option.splits)

text \<open>
  Against claim C4 as stated (an invalid edge always raises the validation error, an
  unauthorized valid edge always the forbidden error): on a paid order the first check of
  \<open>changeStatus\<close> answers before the transition table and the role are consulted: a waiter asking for the valid edge \<open>RECIBIDO\<close> to
  \<open>PREPARACION\<close>, and a cashier asking for the invalid edge \<open>RECIBIDO\<close> to \<open>LISTO\<close>, both get
  the paid-order error.
\<close>

theorem changeStatus_paid_guard_first:
  "changeStatus (example_db RECIBIDO (Some 150)) 1 PREPARACION MESERO =
     Inl (Error ''Cannot change status of paid order'')
   \<and> isValidStatusTransition RECIBIDO PREPARACION
   \<and> \<not> canChangeStatus MESERO RECIBIDO PREPARACION
   \<and> changeStatus (example_db RECIBIDO (Some 150)) 1 LISTO CAJA =
     Inl (Error ''Cannot change status of paid order'')
   \<and> \<not> isValidStatusTransition RECIBIDO LISTO"
  by (simp add: changeStatus_def changeStatus_after_read_def changeStatus_checks_def
      table_defs example_defs isValidStatusTransition_def)

text \<open>
  Claim C4, as the code has it: for every role and every pair of statuses, \<open>changeStatus\<close>
  on an existing order succeeds exactly when the paid check passes (the order is unpaid
  or the target is \<open>ENTREGADO\<close>), the edge is in the transition table and the role is
  authorized for it: \<open>CAJA\<close> for every valid edge, \<open>MESERO\<close> only for \<open>LISTO\<close> to
  \<open>ENTREGADO\<close>, \<open>COCINA\<close> only for \<open>RECIBIDO\<close> to \<open>PREPARACION\<close> and \<open>PREPARACION\<close> to
  \<open>LISTO\<close>. When the paid check passes, an invalid edge raises "Invalid status
  transition" and a valid edge the role has no right to raises "Role ... cannot change
  status"; when it does not, the call raises "Cannot change status of paid order".
\<close>

theorem changeStatus_role_gate:
  assumes "order_findUnique db i = Some ord"
  shows "((\<exists>db'. changeStatus db i t r = Inr db') =
            ((paidAt ord = None \<or> t = ENTREGADO)
             \<and> isValidStatusTransition (status ord) t \<and> canChangeStatus r (status ord) t))
       \<and> (paidAt ord \<noteq> None \<and> t \<noteq> ENTREGADO \<longrightarrow>
            changeStatus db i t r = Inl (Error ''Cannot change status of paid order''))
       \<and> ((paidAt ord = None \<or> t = ENTREGADO) \<and> \<not> isValidStatusTransition (status ord) t \<longrightarrow>
            changeStatus db i t r = Inl (InvalidStatusTransition (status ord) t))
       \<and> ((paidAt ord = None \<or> t = ENTREGADO) \<and> isValidStatusTransition (status ord) t
            \<and> \<not> canChangeStatus r (status ord) t \<longrightarrow>
            changeStatus db i t r = Inl (RoleCannotChangeStatus r (status ord) t))
       \<and> ((isValidStatusTransition (status ord) t \<and> canChangeStatus r (status ord) t) =
            ((r = CAJA \<and> List.member [(RECIBIDO, PREPARACION), (RECIBIDO, CANCELADO),
                  (PREPARACION, LISTO), (PREPARACION, CANCELADO), (LISTO, ENTREGADO),
                  (LISTO, CANCELADO)] (status ord, t))
             \<or> (r = MESERO \<and> status ord = LISTO \<and> t = ENTREGADO)
             \<or> (r = COCINA \<and> ((status ord = RECIBIDO \<and> t = PREPARACION)
                               \<or> (status ord = PREPARACION \<and> t = LISTO)))))"
proof (intro conjI)
  show "(\<exists>db'. changeStatus db i t r = Inr db') =
            ((paidAt ord = None \<or> t = ENTREGADO)
             \<and> isValidStatusTransition (status ord) t \<and> canChangeStatus r (status ord) t)"
    by (auto simp: changeStatus_found[OF assms] changeStatus_checks_def split: if_splits)
  show "paidAt ord \<noteq> None \<and> t \<noteq> ENTREGADO \<longrightarrow>
            changeStatus db i t r = Inl (Error ''Cannot change status of paid order'')"
    by (simp add: changeStatus_found[OF assms] changeStatus_checks_def)
  show "(paidAt ord = None \<or> t = ENTREGADO) \<and> \<not> isValidStatusTransition (status ord) t \<longrightarrow>
            changeStatus db i t r = Inl (InvalidStatusTransition (status ord) t)"
    by (auto simp: changeStatus_found[OF assms] changeStatus_checks_def)
  show "(paidAt ord = None \<or> t = ENTREGADO) \<and> isValidStatusTransition (status ord) t
            \<and> \<not> canChangeStatus r (status ord) t \<longrightarrow>
            changeStatus db i t r = Inl (RoleCannotChangeStatus r (status ord) t)"
    by (auto simp: changeStatus_found[OF assms] changeStatus_checks_def)
  show "(isValidStatusTransition (status ord) t \<and> canChangeStatus r (status ord) t) =
            ((r = CAJA \<and> List.member [(RECIBIDO, PREPARACION), (RECIBIDO, CANCELADO),
                  (PREPARACION, LISTO), (PREPARACION, CANCELADO), (LISTO, ENTREGADO),
                  (LISTO, CANCELADO)] (status ord, t))
             \<or> (r = MESERO \<and> status ord = LISTO \<and> t = ENTREGADO)
             \<or> (r = COCINA \<and> ((status ord = RECIBIDO \<and> t = PREPARACION)
                               \<or> (status ord = PREPARACION \<and> t = LISTO))))"
    by (rule authorized_edges)
qed

theorem changeStatus_role_gate_witness:
  "changeStatus (example_db RECIBIDO None) 1 PREPARACION MESERO =
     Inl (RoleCannotChangeStatus MESERO RECIBIDO PREPARACION)
   \<and> changeStatus (example_db RECIBIDO None) 1 LISTO CAJA =
     Inl (InvalidStatusTransition RECIBIDO LISTO)
   \<and> (\<exists>db'. changeStatus (example_db RECIBIDO None) 1 PREPARACION COCINA = Inr db')"
proof -
  have f: "order_findUnique (example_db RECIBIDO None) 1 = Some (example_order RECIBIDO None)"
    by (simp add: table_defs example_defs)
  from changeStatus_role_gate [OF f, of PREPARACION MESERO]
       changeStatus_role_gate [OF f, of LISTO CAJA]
       changeStatus_role_gate [OF f, of PREPARACION COCINA]
  show ?thesis
    by (simp add: example_order_def isValidStatusTransition_def)
qed

section \<open>Paid orders\<close>

text \<open>
  Against claim C6 as stated (on a paid order the three item operations fail with "cannot
  modify paid order"): they test the caller's permission before they look at the order. On
  the paid order 1 a kitchen user adding an item and a waiter editing or deleting one get the
  permission error.
\<close>

theorem addItems_permission_guard_first:
  "addItems (example_db LISTO (Some 150)) 1 [example_new_item] COCINA =
     Inl (Error ''No permission to add items'')
   \<and> editItem (example_db LISTO (Some 150)) 1 11 example_patch MESERO =
     Inl (Error ''No permission to edit items'')
   \<and> deleteItem (example_db LISTO (Some 150)) 1 11 MESERO =
     Inl (Error ''No permission to delete items'')
   \<and> paidAt (example_order LISTO (Some 150)) = Some 150
   \<and> order_findUnique (example_db LISTO (Some 150)) 1 = Some (example_order LISTO (Some 150))"
  by (simp add: addItems_def editItem_def deleteItem_def hasPermission_def table_defs example_defs)

text \<open>
  Claim C6, as the code has it: on every order with \<open>paidAt\<close> set, \<open>addItems\<close>, \<open>editItem\<close>
  and \<open>deleteItem\<close> fail for every caller, so nothing is written; the error is "Cannot
  modify paid order" for a caller who holds the operation's permission, and the
  permission error for one who does not (the waiter service's \<open>addItems\<close> likewise, with
  its role check). \<open>changeStatus\<close> fails with "Cannot change status of paid order" for
  every target other than \<open>ENTREGADO\<close>, and still delivers a paid order that is \<open>LISTO\<close>.
\<close>

theorem paid_order_is_immutable:
  assumes "order_findUnique db i = Some ord" and "paidAt ord \<noteq> None"
  shows "addItems db i xs r =
           Inl (Error (if hasPermission r ORDER_ADD_ITEMS then ''Cannot modify paid order''
                       else ''No permission to add items''))
       \<and> editItem db i itemId d r =
           Inl (Error (if hasPermission r ORDER_EDIT_ITEMS then ''Cannot modify paid order''
                       else ''No permission to edit items''))
       \<and> deleteItem db i itemId r =
           Inl (Error (if hasPermission r ORDER_DELETE_ITEMS then ''Cannot modify paid order''
                       else ''No permission to delete items''))
       \<and> waiter_addItems db i xs r =
           Inl (Error (if r = MESERO then ''Cannot modify paid order''
                       else ''Only MESERO role can access waiter endpoints''))
       \<and> (t \<noteq> ENTREGADO \<longrightarrow>
            changeStatus db i t r = Inl (Error ''Cannot change status of paid order''))
       \<and> (status ord = LISTO \<and> r \<noteq> COCINA \<longrightarrow> (\<exists>db'. changeStatus db i ENTREGADO r = Inr db'))"
proof (intro conjI)
  show "addItems db i xs r =
           Inl (Error (if hasPermission r ORDER_ADD_ITEMS then ''Cannot modify paid order''
                       else ''No permission to add items''))"
    using assms by (simp add: addItems_def canModifyOrder_def)
  show "editItem db i itemId d r =
           Inl (Error (if hasPermission r ORDER_EDIT_ITEMS then ''Cannot modify paid order''
                       else ''No permission to edit items''))"
    using assms by (simp add: editItem_def canModifyOrder_def)
  show "deleteItem db i itemId r =
           Inl (Error (if hasPermission r ORDER_DELETE_ITEMS then ''Cannot modify paid order''
                       else ''No permission to delete items''))"
    using assms by (simp add: deleteItem_def canModifyOrder_def)
  show "waiter_addItems db i xs r =
           Inl (Error (if r = MESERO then ''Cannot modify paid order''
                       else ''Only MESERO role can access waiter endpoints''))"
    using assms by (simp add: waiter_addItems_def canModifyOrder_def)
  show "t \<noteq> ENTREGADO \<longrightarrow>
            changeStatus db i t r = Inl (Error ''Cannot change status of paid order'')"
    using assms by (simp add: changeStatus_found changeStatus_checks_def)
  show "status ord = LISTO \<and> r \<noteq> COCINA \<longrightarrow> (\<exists>db'. changeStatus db i ENTREGADO r = Inr db')"
    using assms
    by (cases r) (simp_all add: changeStatus_found changeStatus_checks_def isValidStatusTransition_def)
qed

theorem paid_order_is_immutable_witness:
  "addItems (example_db LISTO (Some 150)) 1 [example_new_item] MESERO =
     Inl (Error ''Cannot modify paid order'')
   \<and> editItem (example_db LISTO (Some 150)) 1 11 example_patch CAJA = Inl (Error ''Cannot modify paid order'')
   \<and> deleteItem (example_db LISTO (Some 150)) 1 11 CAJA = Inl (Error ''Cannot modify paid order'')
   \<and> changeStatus (example_db LISTO (Some 150)) 1 CANCELADO CAJA =
       Inl (Error ''Cannot change status of paid order'')
   \<and> (\<exists>db'. changeStatus (example_db LISTO (Some 150)) 1 ENTREGADO MESERO = Inr db')"
proof -
  have f: "order_findUnique (example_db LISTO (Some 150)) 1 = Some (example_order LISTO (Some 150))"
    by (simp add: table_defs example_defs)
  have p: "paidAt (example_order LISTO (Some 150)) \<noteq> None"
    by (simp add: example_defs)
  from paid_order_is_immutable [OF f p, of "[example_new_item]" MESERO 11 example_patch CANCELADO]
       paid_order_is_immutable [OF f p, of "[example_new_item]" CAJA 11 example_patch CANCELADO]
  show ?thesis
    by (simp add: hasPermission_def example_order_def)
qed

section \<open>Deleting the last item\<close>

text \<open>Removing the rows with one key from a table whose keys are distinct removes one row.\<close>

lemma filter_absent_key:
  "a \<notin> k ` set xs \<Longrightarrow> filter (\<lambda>y. k y \<noteq> a) xs = xs"
  by (induction xs) auto

lemma length_filter_remove_key:
  assumes "distinct (map k xs)"
  shows "length (filter P xs) \<le> Suc (length (filter P (filter (\<lambda>y. k y \<noteq> a) xs)))"
  using assms
proof (induction xs)
  case Nil
  show ?case by simp
next
  case (Cons x xs)
  then have d: "distinct (map k xs)" and nx: "k x \<notin> k ` set xs" by simp_all
  show ?case
  proof (cases "k x = a")
    case True
    then have "filter (\<lambda>y. k y \<noteq> a) xs = xs" using nx by (simp add: filter_absent_key)
    then show ?thesis using True by simp
  next
    case False
    then show ?thesis using Cons.IH[OF d] by simp
  qed
qed

lemma same_key_same_row:
  assumes "distinct (map k xs)" and "x \<in> set xs" and "y \<in> set xs" and "k x = k y"
  shows "x = y"
proof -
  have "inj_on k (set xs)" using assms(1) by (simp add: distinct_map)
  then show ?thesis using assms(2,3,4) by (auto dest: inj_onD)
qed

text \<open>
  Against claim C8 as stated (the last-item error whatever the caller's permission):
  order 2 has the single item 21, and a waiter, who has no right to delete items, is
  refused for that reason: \<open>deleteItem\<close> tests the permission before it loads the order.
\<close>

theorem deleteItem_permission_guard_first:
  "deleteItem (example_db RECIBIDO None) 2 21 MESERO = Inl (Error ''No permission to delete items'')
   \<and> order_findUnique (example_db RECIBIDO None) 2 \<noteq> None
   \<and> map item_id (items_of (example_db RECIBIDO None) 2) = [21]"
  by (simp add: deleteItem_def hasPermission_def table_defs example_defs)

text \<open>
  Claim C8, as the code has it: on an existing order with exactly one item, \<open>deleteItem\<close>
  of that item fails for every caller, so the item stays; the error is "Cannot delete
  the last item. Cancel the order instead." when the caller has the delete permission and
  the order is unpaid, the permission error when the caller lacks the permission, and
  "Cannot modify paid order" when the order is paid. And in a table whose item
  identifiers are distinct (they are its primary key), a \<open>deleteItem\<close> that succeeds
  leaves every order that had items with at least one item.
\<close>

theorem deleteItem_never_empties:
  "(order_findUnique db i = Some ord \<and> items_of db i = [it] \<and> item_id it = itemId \<longrightarrow>
      deleteItem db i itemId r =
        Inl (Error (if \<not> hasPermission r ORDER_DELETE_ITEMS then ''No permission to delete items''
                    else if paidAt ord \<noteq> None then ''Cannot modify paid order''
                    else ''Cannot delete the last item. Cancel the order instead.'')))
   \<and> (distinct (map item_id (orderItems db)) \<and> deleteItem db i itemId r = Inr db'
        \<and> items_of db j \<noteq> [] \<longrightarrow> items_of db' j \<noteq> [])"
proof (intro conjI impI)
  assume "order_findUnique db i = Some ord \<and> items_of db i = [it] \<and> item_id it = itemId"
  then show "deleteItem db i itemId r =
        Inl (Error (if \<not> hasPermission r ORDER_DELETE_ITEMS then ''No permission to delete items''
                    else if paidAt ord \<noteq> None then ''Cannot modify paid order''
                    else ''Cannot delete the last item. Cancel the order instead.''))"
    by (simp add: deleteItem_def canModifyOrder_def)
next
  assume a: "distinct (map item_id (orderItems db)) \<and> deleteItem db i itemId r = Inr db'
        \<and> items_of db j \<noteq> []"
  then have d: "distinct (map item_id (orderItems db))" and run: "deleteItem db i itemId r = Inr db'"
    and ne: "items_of db j \<noteq> []" by simp_all
  from run have found: "find (\<lambda>x. item_id x = itemId) (items_of db i) \<noteq> None"
    and len: "length (items_of db i) \<noteq> 1"
    and db': "db' = db\<lparr>orderItems := filter (\<lambda>x. item_id x \<noteq> itemId) (orderItems db)\<rparr>"
    by (auto simp: deleteItem_def split: if_splits option.splits)
  from found obtain y where y: "y \<in> set (orderItems db)" "item_orderId y = i" "item_id y = itemId"
    by (auto simp: find_None_iff items_of_def)
  from ne obtain x where x: "x \<in> set (orderItems db)" "item_orderId x = j"
    by (auto simp: items_of_def filter_empty_conv)
  have "filter (\<lambda>z. item_orderId z = j) (filter (\<lambda>z. item_id z \<noteq> itemId) (orderItems db)) \<noteq> []"
  proof (cases "j = i")
    case True
    have "length (items_of db i) \<noteq> 0" using ne True by simp
    with len have "2 \<le> length (items_of db i)" by arith
    then have "2 \<le> length (filter (\<lambda>z. item_orderId z = i) (orderItems db))"
      by (simp only: items_of_def)
    moreover have "length (filter (\<lambda>z. item_orderId z = i) (orderItems db))
        \<le> Suc (length (filter (\<lambda>z. item_orderId z = i)
                    (filter (\<lambda>z. item_id z \<noteq> itemId) (orderItems db))))"
      by (rule length_filter_remove_key[OF d])
    ultimately have "1 \<le> length (filter (\<lambda>z. item_orderId z = i)
                    (filter (\<lambda>z. item_id z \<noteq> itemId) (orderItems db)))"
      by linarith
    then show ?thesis using True by auto
  next
    case False
    have "x \<noteq> y" using x(2) y(2) False by auto
    then have "item_id x \<noteq> item_id y"
      using same_key_same_row[OF d x(1) y(1)] by blast
    then have "x \<in> set (filter (\<lambda>z. item_orderId z = j)
                 (filter (\<lambda>z. item_id z \<noteq> itemId) (orderItems db)))"
      using x y(3) by simp
    then show ?thesis by (metis empty_iff empty_set)
  qed
  then show "items_of db' j \<noteq> []"
    by (simp add: db' items_of_def)
qed

theorem deleteItem_never_empties_witness:
  "deleteItem (example_db RECIBIDO None) 2 21 CAJA =
     Inl (Error ''Cannot delete the last item. Cancel the order instead.'')
   \<and> deleteItem (example_db RECIBIDO None) 1 11 CAJA =
       Inr ((example_db RECIBIDO None)\<lparr>orderItems := tl example_items\<rparr>)
   \<and> items_of ((example_db RECIBIDO None)\<lparr>orderItems := tl example_items\<rparr>) 1 \<noteq> []"
proof -
  let ?db = "example_db RECIBIDO None"
  let ?db' = "?db\<lparr>orderItems := tl example_items\<rparr>"
  have h1: "order_findUnique ?db 2 = Some (orders ?db ! 1) \<and> items_of ?db 2 = [example_items ! 2]
              \<and> item_id (example_items ! 2) = 21"
    by (simp add: table_defs example_defs)
  have run: "deleteItem ?db 1 11 CAJA = Inr ?db'"
    by (simp add: deleteItem_def hasPermission_def canModifyOrder_def table_defs example_defs)
  have h2: "distinct (map item_id (orderItems ?db)) \<and> deleteItem ?db 1 11 CAJA = Inr ?db'
              \<and> items_of ?db 1 \<noteq> []"
    using run by (simp add: table_defs example_defs)
  from deleteItem_never_empties [of ?db 2 "orders ?db ! 1" "example_items ! 2" 21 CAJA ?db' 1]
       deleteItem_never_empties [of ?db 1 "orders ?db ! 0" "example_items ! 0" 11 CAJA ?db' 1]
       h1 h2 run
  show ?thesis
    by (simp add: hasPermission_def example_db_def)
qed

section \<open>Requesting the bill\<close>

lemma map_set_flag_twice:
  "map (\<lambda>x. if order_id x = i then x\<lparr>requestedBill := True\<rparr> else x)
     (map (\<lambda>x. if order_id x = i then x\<lparr>requestedBill := True\<rparr> else x) xs)
   = map (\<lambda>x. if order_id x = i then x\<lparr>requestedBill := True\<rparr> else x) xs"
  by (induction xs) simp_all

lemma requestBill_unpaid:
  assumes "order_findUnique db i = Some ord" and "paidAt ord = None"
  shows "order_update db i (\<lambda>x. x\<lparr>requestedBill := True\<rparr>) =
           Inr (db\<lparr>orders := map (\<lambda>x. if order_id x = i then x\<lparr>requestedBill := True\<rparr> else x) (orders db)\<rparr>)"
    and "order_findUnique (db\<lparr>orders := map (\<lambda>x. if order_id x = i then x\<lparr>requestedBill := True\<rparr> else x) (orders db)\<rparr>) i
           = Some (ord\<lparr>requestedBill := True\<rparr>)"
    and "order_update (db\<lparr>orders := map (\<lambda>x. if order_id x = i then x\<lparr>requestedBill := True\<rparr> else x) (orders db)\<rparr>) i
            (\<lambda>x. x\<lparr>requestedBill := True\<rparr>)
           = Inr (db\<lparr>orders := map (\<lambda>x. if order_id x = i then x\<lparr>requestedBill := True\<rparr> else x) (orders db)\<rparr>)"
proof -
  let ?db1 = "db\<lparr>orders := map (\<lambda>x. if order_id x = i then x\<lparr>requestedBill := True\<rparr> else x) (orders db)\<rparr>"
  show "order_update db i (\<lambda>x. x\<lparr>requestedBill := True\<rparr>) = Inr ?db1"
    by (rule order_update_found[OF assms(1)])
  have "order_findUnique ?db1 i
          = map_option (\<lambda>x. if order_id x = i then x\<lparr>requestedBill := True\<rparr> else x) (order_findUnique db i)"
    by (rule order_findUnique_after_update) simp
  then show f1: "order_findUnique ?db1 i = Some (ord\<lparr>requestedBill := True\<rparr>)"
    using assms(1) order_findUnique_id[OF assms(1)] by simp
  show "order_update ?db1 i (\<lambda>x. x\<lparr>requestedBill := True\<rparr>) = Inr ?db1"
    by (simp add: order_update_found[OF f1] map_set_flag_twice)
qed

text \<open>
  Against claim C9 as stated (\<open>requestBill\<close> fails only on an absent or paid order):
  order 1 exists and is unpaid, and still a kitchen user's \<open>requestBill\<close> fails, as does a
  cashier's call of the waiter service's \<open>requestBill\<close>: each tests the caller first.
\<close>

theorem requestBill_permission_guard:
  "requestBill (example_db LISTO None) 1 COCINA = Inl (Error ''No permission to request bill'')
   \<and> waiter_requestBill (example_db LISTO None) 1 CAJA =
       Inl (Error ''Only MESERO role can access waiter endpoints'')
   \<and> order_findUnique (example_db LISTO None) 1 = Some (example_order LISTO None)
   \<and> paidAt (example_order LISTO None) = None"
  by (simp add: requestBill_def waiter_requestBill_def hasPermission_def table_defs example_defs)

text \<open>
  Claim C9, as the code has it: on an existing, unpaid order, a first \<open>requestBill\<close> by a
  caller who holds the request-bill permission sets \<open>requestedBill\<close>, and a second one (by
  any such caller) succeeds and leaves the database as the first left it; the waiter
  service's \<open>requestBill\<close> called by a waiter does the same. \<open>requestBill\<close> fails exactly when
  the caller lacks the permission (for the waiter service: is not a waiter), the order is
  absent, or the order is paid.
\<close>

theorem requestBill_idempotent:
  "(order_findUnique db i = Some ord \<and> paidAt ord = None
      \<and> hasPermission r ORDER_REQUEST_BILL \<and> hasPermission r' ORDER_REQUEST_BILL \<longrightarrow>
      (\<exists>db1. requestBill db i r = Inr db1
         \<and> order_findUnique db1 i = Some (ord\<lparr>requestedBill := True\<rparr>)
         \<and> requestBill db1 i r' = Inr db1
         \<and> waiter_requestBill db i MESERO = Inr db1
         \<and> waiter_requestBill db1 i MESERO = Inr db1))
   \<and> ((\<exists>e. requestBill db i r = Inl e) =
        (\<not> hasPermission r ORDER_REQUEST_BILL \<or> order_findUnique db i = None
         \<or> (\<exists>x. order_findUnique db i = Some x \<and> paidAt x \<noteq> None)))
   \<and> ((\<exists>e. waiter_requestBill db i r = Inl e) =
        (r \<noteq> MESERO \<or> order_findUnique db i = None
         \<or> (\<exists>x. order_findUnique db i = Some x \<and> paidAt x \<noteq> None)))"
proof (intro conjI impI)
  assume a: "order_findUnique db i = Some ord \<and> paidAt ord = None
      \<and> hasPermission r ORDER_REQUEST_BILL \<and> hasPermission r' ORDER_REQUEST_BILL"
  let ?db1 = "db\<lparr>orders := map (\<lambda>x. if order_id x = i then x\<lparr>requestedBill := True\<rparr> else x) (orders db)\<rparr>"
  from a have f: "order_findUnique db i = Some ord" and u: "paidAt ord = None"
    and p: "hasPermission r ORDER_REQUEST_BILL" and p': "hasPermission r' ORDER_REQUEST_BILL"
    by simp_all
  note rb = requestBill_unpaid[OF f u]
  have "requestBill db i r = Inr ?db1" using f u p rb(1) by (simp add: requestBill_def)
  moreover have "requestBill ?db1 i r' = Inr ?db1"
    using u p' rb(2,3) by (simp add: requestBill_def)
  moreover have "waiter_requestBill db i MESERO = Inr ?db1"
    using f u rb(1) by (simp add: waiter_requestBill_def)
  moreover have "waiter_requestBill ?db1 i MESERO = Inr ?db1"
    using u rb(2,3) by (simp add: waiter_requestBill_def)
  ultimately show "\<exists>db1. requestBill db i r = Inr db1
         \<and> order_findUnique db1 i = Some (ord\<lparr>requestedBill := True\<rparr>)
         \<and> requestBill db1 i r' = Inr db1
         \<and> waiter_requestBill db i MESERO = Inr db1
         \<and> waiter_requestBill db1 i MESERO = Inr db1"
    using rb(2) by blast
next
  show "(\<exists>e. requestBill db i r = Inl e) =
        (\<not> hasPermission r ORDER_REQUEST_BILL \<or> order_findUnique db i = None
         \<or> (\<exists>x. order_findUnique db i = Some x \<and> paidAt x \<noteq> None))"
    by (auto simp: requestBill_def order_update_found split: option.splits)
next
  show "(\<exists>e. waiter_requestBill db i r = Inl e) =
        (r \<noteq> MESERO \<or> order_findUnique db i = None
         \<or> (\<exists>x. order_findUnique db i = Some x \<and> paidAt x \<noteq> None))"
    by (auto simp: waiter_requestBill_def order_update_found split: option.splits)
qed

theorem requestBill_idempotent_witness:
  "(\<exists>db1. requestBill (example_db LISTO None) 1 MESERO = Inr db1
      \<and> order_findUnique db1 1 = Some ((example_order LISTO None)\<lparr>requestedBill := True\<rparr>)
      \<and> requestBill db1 1 CAJA = Inr db1)
   \<and> (\<exists>e. requestBill (example_db LISTO (Some 150)) 1 CAJA = Inl e)"
proof -
  have h: "order_findUnique (example_db LISTO None) 1 = Some (example_order LISTO None)
           \<and> paidAt (example_order LISTO None) = None
           \<and> hasPermission MESERO ORDER_REQUEST_BILL \<and> hasPermission CAJA ORDER_REQUEST_BILL"
    by (simp add: hasPermission_def table_defs example_defs)
  have g: "order_findUnique (example_db LISTO (Some 150)) 1 = Some (example_order LISTO (Some 150))
           \<and> paidAt (example_order LISTO (Some 150)) \<noteq> None"
    by (simp add: table_defs example_defs)
  from requestBill_idempotent [of "example_db LISTO None" 1 "example_order LISTO None" MESERO CAJA]
       requestBill_idempotent [of "example_db LISTO (Some 150)" 1 "example_order LISTO (Some 150)" CAJA CAJA]
       h g
  show ?thesis by auto
qed

section \<open>When an order becomes paid\<close>

subsection \<open>What each operation does to the order table\<close>





























subsection \<open>The only writer of \<open>paidAt\<close>\<close>



section \<open>What the kitchen can read\<close>











end
